theory Spec2Isabelle
  imports Main "HOL-Library.Sublist"
begin

section \<open>The values the handler works on\<close>

text \<open>
  The repository is one Express route, \<^verbatim>\<open>app.post('/generate', async (req, res) => ...)\<close>.
  Two revisions of the file are present: the one with the plan parsing
  (\<^verbatim>\<open>JSON.parse(raw)\<close>, response \<^verbatim>\<open>{ plan, code, explanation }\<close>), which the
  README and the specification describe and which is modelled first, and \<^verbatim>\<open>index.js\<close>,
  an earlier revision without the parsing step, modelled after it.

  The request body and the plan are the results of \<^verbatim>\<open>JSON.parse\<close>, so they are JSON
  values. A number is kept as the text \<^verbatim>\<open>String(n)\<close> gives for it (the text determines
  the double up to the sign of zero), a string as its list of code units, an object as the
  list of its own properties in enumeration order, each key once. \<^verbatim>\<open>undefined\<close>, the value of
  an absent property, is \<open>None\<close> of \<open>json option\<close>.
\<close>

datatype json =
    JNull
  | JBool bool
  | JNum string
  | JStr string
  | JArr \<open>json list\<close>
  | JObj \<open>(string \<times> json) list\<close>

datatype error = TypeError | SyntaxError | GenerateContentError

text \<open>\<^verbatim>\<open>!message\<close> and \<^verbatim>\<open>previousCode || "None"\<close> test ToBoolean of the value.\<close>

fun ToBoolean :: \<open>json option \<Rightarrow> bool\<close> where
  \<open>ToBoolean None = False\<close>
| \<open>ToBoolean (Some JNull) = False\<close>
| \<open>ToBoolean (Some (JBool b)) = b\<close>
| \<open>ToBoolean (Some (JNum t)) = (t \<noteq> ''0'' \<and> t \<noteq> ''NaN'')\<close>
| \<open>ToBoolean (Some (JStr s)) = (s \<noteq> [])\<close>
| \<open>ToBoolean (Some (JArr xs)) = True\<close>
| \<open>ToBoolean (Some (JObj kvs)) = True\<close>

text \<open>
  A template literal \<^verbatim>\<open>`...${v}...`\<close> applies ToString to \<open>v\<close>. A string is taken as it is.
  For an array that is \<^verbatim>\<open>Array.prototype.join\<close> with a comma, where \<^verbatim>\<open>null\<close> elements
  give the empty text. For an object it is \<^verbatim>\<open>Object.prototype.toString\<close>, unless the
  object has an own property \<^verbatim>\<open>toString\<close>: a JSON value is never callable, the inherited
  \<^verbatim>\<open>valueOf\<close> returns the object, and the conversion throws a TypeError.
\<close>

fun join :: \<open>string \<Rightarrow> string list \<Rightarrow> string\<close> where
  \<open>join sep [] = []\<close>
| \<open>join sep [x] = x\<close>
| \<open>join sep (x # y # ys) = x @ sep @ join sep (y # ys)\<close>

fun throws_on_conversion :: \<open>json \<Rightarrow> bool\<close> where
  \<open>throws_on_conversion (JObj kvs) = (''toString'' \<in> set (map fst kvs))\<close>
| \<open>throws_on_conversion (JArr xs) = list_ex throws_on_conversion xs\<close>
| \<open>throws_on_conversion JNull = False\<close>
| \<open>throws_on_conversion (JBool b) = False\<close>
| \<open>throws_on_conversion (JNum t) = False\<close>
| \<open>throws_on_conversion (JStr s) = False\<close>

fun text_of :: \<open>json \<Rightarrow> string\<close> where
  \<open>text_of JNull = ''null''\<close>
| \<open>text_of (JBool b) = (if b then ''true'' else ''false'')\<close>
| \<open>text_of (JNum t) = t\<close>
| \<open>text_of (JStr s) = s\<close>
| \<open>text_of (JArr xs) = join '','' (map (\<lambda>x. if x = JNull then [] else text_of x) xs)\<close>
| \<open>text_of (JObj kvs) = ''[object Object]''\<close>

fun ToString :: \<open>json option \<Rightarrow> error + string\<close> where
  \<open>ToString None = Inr ''undefined''\<close>
| \<open>ToString (Some v) = (if throws_on_conversion v then Inl TypeError else Inr (text_of v))\<close>

text \<open>
  \<^verbatim>\<open>const { message, previousCode } = req.body\<close> throws a TypeError when \<^verbatim>\<open>req.body\<close> is
  \<^verbatim>\<open>undefined\<close> or \<^verbatim>\<open>null\<close>; otherwise it reads the two properties. \<open>Get\<close> is the
  property lookup for the names read in this program (\<open>message\<close>, \<open>previousCode\<close> and the
  keys of a plan), which only an object can have.
\<close>

fun Get :: \<open>json \<Rightarrow> string \<Rightarrow> json option\<close> where
  \<open>Get (JObj kvs) k = map_of kvs k\<close>
| \<open>Get v k = None\<close>

fun destructure :: \<open>json option \<Rightarrow> error + json option \<times> json option\<close> where
  \<open>destructure None = Inl TypeError\<close>
| \<open>destructure (Some JNull) = Inl TypeError\<close>
| \<open>destructure (Some b) = Inr (Get b ''message'', Get b ''previousCode'')\<close>

text \<open>\<^verbatim>\<open>String.prototype.trim\<close>, on the white space and line terminators below U+0100.\<close>

definition is_white_space :: \<open>char \<Rightarrow> bool\<close> where
  \<open>is_white_space c \<longleftrightarrow>
     c \<in> set [CHR 0x09, CHR 0x0A, CHR 0x0B, CHR 0x0C, CHR 0x0D, CHR 0x20, CHR 0xA0]\<close>

definition trim :: \<open>string \<Rightarrow> string\<close> where
  \<open>trim s = rev (dropWhile is_white_space (rev (dropWhile is_white_space s)))\<close>

section \<open>What the handler is given from outside\<close>

text \<open>
  \<^verbatim>\<open>JSON.parse\<close> and \<^verbatim>\<open>JSON.stringify(plan, null, 2)\<close> belong to the JavaScript runtime and
  are parameters of the model; \<open>JSON_parse\<close> is \<open>None\<close> where \<^verbatim>\<open>JSON.parse\<close> throws its
  SyntaxError.

  The model client is a parameter too. One call is \<^verbatim>\<open>await model.generateContent(prompt)\<close>
  followed by \<^verbatim>\<open>.response.text()\<close>; it may depend on the prompts sent before in the same
  request, and is \<open>None\<close> when either step throws. Every call is appended to the list
  of prompts sent, whether it succeeds or not.
\<close>

record runtime =
  JSON_parse :: \<open>string \<Rightarrow> json option\<close>
  JSON_stringify :: \<open>json \<Rightarrow> string\<close>

type_synonym client = \<open>string list \<Rightarrow> string \<Rightarrow> string option\<close>

definition generateContent ::
  \<open>client \<Rightarrow> string list \<Rightarrow> string \<Rightarrow> (error + string) \<times> string list\<close> where
  \<open>generateContent model calls prompt =
     ((case model calls prompt of None \<Rightarrow> Inl GenerateContentError | Some text \<Rightarrow> Inr text),
      calls @ [prompt])\<close>

record response =
  status :: nat
  body :: json

section \<open>The prompt templates\<close>

definition newline :: \<open>char\<close> where
  \<open>newline = CHR 0x0A\<close>

definition text_lines :: \<open>string list \<Rightarrow> string\<close> where
  \<open>text_lines ls = concat (map (\<lambda>l. l @ [newline]) ls)\<close>

text \<open>The lines of the planner template from its first line to \<^verbatim>\<open>USER REQUEST:\<close>.\<close>

definition plannerPrompt_lines :: \<open>string list\<close> where
  \<open>plannerPrompt_lines =
    [''You are a deterministic UI planner.'',
     '''',
     ''Your job is to analyze the user request and return a structured JSON plan.'',
     '''',
     ''ALLOWED COMPONENTS AND REQUIRED PROPS'',
     '''',
     ''1) Sidebar'',
     ''   Required props:'',
     ''   - header: string'',
     ''   - items: array of { label: string }'',
     '''',
     ''2) Card'',
     ''   Required props:'',
     ''   - title: string'',
     ''   - content: string'',
     ''   - description: string'',
     '''',
     ''3) Button'',
     ''   Required props:'',
     ''   - label: string'',
     '''',
     ''4) Input'',
     ''   Required props:'',
     ''   - placeholder: string'',
     '''',
     ''5) Navbar'',
     ''   Required props:'',
     ''   - title: string'',
     '''',
     ''6) Modal'',
     ''   Required props:'',
     ''   - title: string'',
     '''',
     ''7) Chart'',
     ''   Required props:'',
     ''   - title: string'',
     '''',
     ''PLANNING RULES'',
     '''',
     ''- Use ONLY the allowed components listed above.'',
     ''- Every component MUST include all required props.'',
     ''- Do NOT leave props empty.'',
     ''- If previous UI exists, modify it instead of rewriting completely.'',
     ''- Preserve existing components unless explicitly removed.'',
     ''- Be minimal and structured.'',
     '''',
     ''OUTPUT FORMAT (STRICT JSON ONLY)'',
     '''',
     ''{'',
     ''  "type": "create" OR "modify",'',
     ''  "components": ['',
     ''    {'',
     ''      "name": "ComponentName",'',
     ''      "props": {'',
     ''        // required props here'',
     ''      }'',
     ''    }'',
     ''  ]'',
     ''}'',
     '''',
     ''- Return ONLY valid JSON.'',
     ''- Do NOT include explanation.'',
     ''- Do NOT include code.'',
     ''- Do NOT wrap in markdown.'',
     ''- Do NOT include extra text.'',
     '''',
     ''USER REQUEST:'']\<close>

text \<open>The lines of the generator template from its first line to \<^verbatim>\<open>PLAN:\<close>.\<close>

definition generatorPrompt_lines :: \<open>string list\<close> where
  \<open>generatorPrompt_lines =
    [''You are a deterministic React UI code generator.'',
     '''',
     ''Your job is to convert a structured UI plan into valid JSX.'',
     '''',
     ''ALLOWED COMPONENTS AND PROPS'',
     '''',
     ''1) Sidebar'',
     ''   Props:'',
     ''   - header: string'',
     ''   - items: array of { label: string }'',
     '''',
     ''2) Card'',
     ''   Props:'',
     ''   - title: string'',
     ''   - content: string'',
     ''   - description: string'',
     '''',
     ''3) Button'',
     ''   Props:'',
     ''   - label: string'',
     '''',
     ''4) Input'',
     ''   Props:'',
     ''   - placeholder: string'',
     '''',
     ''5) Navbar'',
     ''   Props:'',
     ''   - title: string'',
     '''',
     ''6) Modal'',
     ''   Props:'',
     ''   - title: string'',
     '''',
     ''7) Chart'',
     ''   Props:'',
     ''   - title: string'',
     '''',
     ''STRICT RULES (MUST FOLLOW)'',
     '''',
     ''- If plan.type is "modify":'',
     ''  - Preserve existing components unless explicitly removed.'',
     ''  - Only add, update, or remove what is necessary.'',
     ''  - Do NOT rewrite everything.'',
     ''- If plan.type is "create":'',
     ''  - Build full UI from scratch.'',
     '''',
     ''- Use ONLY the components listed above.'',
     ''- Use ONLY the props defined above.'',
     ''- Do NOT invent new props.'',
     ''- Do NOT use div.'',
     ''- Do NOT use className.'',
     ''- Do NOT use inline styles.'',
     ''- Do NOT import anything.'',
     ''- Do NOT add comments.'',
     ''- Do NOT wrap output in markdown.'',
     ''- Return ONLY pure JSX.'',
     ''- Return a single React fragment (<>...</>).'',
     ''- Do not explain anything.'',
     '''',
     ''PLAN:'']\<close>

definition ALLOWED_COMPONENTS :: \<open>string list\<close> where
  \<open>ALLOWED_COMPONENTS =
     [''Button'', ''Card'', ''Input'', ''Sidebar'', ''Navbar'', ''Modal'', ''Chart'']\<close>

text \<open>\<^verbatim>\<open>${previousCode || "None"}\<close>\<close>

definition previous_ui :: \<open>json option \<Rightarrow> error + string\<close> where
  \<open>previous_ui previousCode =
     (if ToBoolean previousCode then ToString previousCode else Inr ''None'')\<close>

definition plannerPrompt_head :: \<open>string\<close> where
  \<open>plannerPrompt_head = [newline] @ text_lines plannerPrompt_lines @ ''"''\<close>

definition previous_ui_heading :: \<open>string\<close> where
  \<open>previous_ui_heading = [newline, newline] @ ''PREVIOUS UI:'' @ [newline]\<close>

definition plannerPrompt :: \<open>json option \<Rightarrow> json option \<Rightarrow> error + string\<close> where
  \<open>plannerPrompt message previousCode =
     (case ToString message of
        Inl e \<Rightarrow> Inl e
      | Inr m \<Rightarrow>
         (case previous_ui previousCode of
            Inl e \<Rightarrow> Inl e
          | Inr p \<Rightarrow> Inr (plannerPrompt_head @ m @ ''"'' @ previous_ui_heading @ p @ [newline])))\<close>

definition generatorPrompt_head :: \<open>string\<close> where
  \<open>generatorPrompt_head = [newline] @ text_lines generatorPrompt_lines\<close>

definition generatorPrompt :: \<open>runtime \<Rightarrow> json \<Rightarrow> json option \<Rightarrow> error + string\<close> where
  \<open>generatorPrompt J plan previousCode =
     (case previous_ui previousCode of
        Inl e \<Rightarrow> Inl e
      | Inr p \<Rightarrow>
         Inr (generatorPrompt_head @ JSON_stringify J plan @ previous_ui_heading @ p @ [newline]))\<close>

definition explainerPrompt_head :: \<open>string\<close> where
  \<open>explainerPrompt_head =
     [newline] @
     text_lines [''        explain in plan english why these components were selected.'', ''''] @
     ''        plan: ''\<close>

definition explainerPrompt :: \<open>runtime \<Rightarrow> json \<Rightarrow> string\<close> where
  \<open>explainerPrompt J plan =
     explainerPrompt_head @ JSON_stringify J plan @ [newline] @ ''        ''\<close>

section \<open>The handler\<close>

text \<open>
  The body of the \<^verbatim>\<open>try\<close> block: the response it sends, or the exception it throws,
  together with the prompts sent to the model client so far. The output of
  \<^verbatim>\<open>console.log\<close> is not part of the model.
\<close>

definition Input_message_required :: \<open>response\<close> where
  \<open>Input_message_required =
     \<lparr>status = 400, body = JObj [(''message'', JStr ''Input message required'')]\<rparr>\<close>

definition Internal_server_error :: \<open>response\<close> where
  \<open>Internal_server_error =
     \<lparr>status = 500, body = JObj [(''message'', JStr ''Internal server error'')]\<rparr>\<close>

definition generate_try ::
  \<open>runtime \<Rightarrow> client \<Rightarrow> json option \<Rightarrow> (error + response) \<times> string list\<close> where
  \<open>generate_try J model req_body =
     (case destructure req_body of
        Inl e \<Rightarrow> (Inl e, [])
      | Inr (message, previousCode) \<Rightarrow>
         if \<not> ToBoolean message then (Inr Input_message_required, [])
         else
          (case plannerPrompt message previousCode of
             Inl e \<Rightarrow> (Inl e, [])
           | Inr planner_prompt \<Rightarrow>
              (case generateContent model [] planner_prompt of
                 (Inl e, calls1) \<Rightarrow> (Inl e, calls1)
               | (Inr planner_text, calls1) \<Rightarrow>
                  (case JSON_parse J (trim planner_text) of
                     None \<Rightarrow> (Inl SyntaxError, calls1)
                   | Some plan \<Rightarrow>
                      (case generatorPrompt J plan previousCode of
                         Inl e \<Rightarrow> (Inl e, calls1)
                       | Inr generator_prompt \<Rightarrow>
                          (case generateContent model calls1 generator_prompt of
                             (Inl e, calls2) \<Rightarrow> (Inl e, calls2)
                           | (Inr code, calls2) \<Rightarrow>
                              (case generateContent model calls2 (explainerPrompt J plan) of
                                 (Inl e, calls3) \<Rightarrow> (Inl e, calls3)
                               | (Inr explanation, calls3) \<Rightarrow>
                                  (Inr \<lparr>status = 200,
                                        body = JObj [(''plan'', plan), (''code'', JStr code),
                                                     (''explanation'', JStr explanation)]\<rparr>,
                                   calls3))))))))\<close>

text \<open>The \<^verbatim>\<open>catch\<close> block turns every exception into the one 500 response.\<close>

definition generate :: \<open>runtime \<Rightarrow> client \<Rightarrow> json option \<Rightarrow> response \<times> string list\<close> where
  \<open>generate J model req_body =
     (case generate_try J model req_body of
        (Inl err, calls) \<Rightarrow> (Internal_server_error, calls)
      | (Inr res, calls) \<Rightarrow> (res, calls))\<close>

section \<open>The earlier revision of the handler, in \<^verbatim>\<open>index.js\<close>\<close>

text \<open>
  \<^verbatim>\<open>index.js\<close> registers the same route with shorter templates. It does not parse the
  planner's text: \<^verbatim>\<open>planText\<close> goes into the two later prompts as it is, and the
  response is \<^verbatim>\<open>{ code, explanation }\<close>.
\<close>

definition index_plannerPrompt :: \<open>json option \<Rightarrow> json option \<Rightarrow> error + string\<close> where
  \<open>index_plannerPrompt message previousCode =
     (case ToString message of
        Inl e \<Rightarrow> Inl e
      | Inr m \<Rightarrow>
         (case (if ToBoolean previousCode then ToString previousCode
                else Inr ''no previous UI'') of
            Inl e \<Rightarrow> Inl e
          | Inr p \<Rightarrow>
             Inr ([newline] @
                  text_lines [''        you are a UI planner.'', ''''] @
                  ''        allowed components:'' @ join '','' ALLOWED_COMPONENTS @
                  [newline, newline] @
                  ''        user request: "'' @ m @ ''"'' @ [newline, newline] @
                  text_lines [''        if previous UI exists:''] @
                  ''        '' @ p @ [newline, newline] @
                  text_lines [''        return structured JSON plan.'',
                              ''        do not generate code.''] @
                  ''        '')))\<close>

definition index_generatorPrompt :: \<open>string \<Rightarrow> string\<close> where
  \<open>index_generatorPrompt planText =
     [newline] @
     text_lines [''        you are a UI code generator.'', ''''] @
     ''        allowed components: '' @ join '','' ALLOWED_COMPONENTS @ [newline, newline] @
     ''        plan: '' @ planText @ [newline, newline] @
     text_lines [''        rules:'',
                 ''        - use only allowed components'',
                 ''        - no inline styles'',
                 ''        - no className'',
                 ''        - return only JSX''] @
     ''        ''\<close>

definition index_explainerPrompt :: \<open>string \<Rightarrow> string\<close> where
  \<open>index_explainerPrompt planText =
     [newline] @
     text_lines [''        explain in plan english why these components were selected.'', ''''] @
     ''        plan: '' @ planText @ [newline] @ ''        ''\<close>

definition index_generate_try ::
  \<open>client \<Rightarrow> json option \<Rightarrow> (error + response) \<times> string list\<close> where
  \<open>index_generate_try model req_body =
     (case destructure req_body of
        Inl e \<Rightarrow> (Inl e, [])
      | Inr (message, previousCode) \<Rightarrow>
         if \<not> ToBoolean message then (Inr Input_message_required, [])
         else
          (case index_plannerPrompt message previousCode of
             Inl e \<Rightarrow> (Inl e, [])
           | Inr planner_prompt \<Rightarrow>
              (case generateContent model [] planner_prompt of
                 (Inl e, calls1) \<Rightarrow> (Inl e, calls1)
               | (Inr planText, calls1) \<Rightarrow>
                  (case generateContent model calls1 (index_generatorPrompt planText) of
                     (Inl e, calls2) \<Rightarrow> (Inl e, calls2)
                   | (Inr code, calls2) \<Rightarrow>
                      (case generateContent model calls2 (index_explainerPrompt planText) of
                         (Inl e, calls3) \<Rightarrow> (Inl e, calls3)
                       | (Inr explanation, calls3) \<Rightarrow>
                          (Inr \<lparr>status = 200,
                                body = JObj [(''code'', JStr code),
                                             (''explanation'', JStr explanation)]\<rparr>,
                           calls3))))))\<close>

definition index_generate :: \<open>client \<Rightarrow> json option \<Rightarrow> response \<times> string list\<close> where
  \<open>index_generate model req_body =
     (case index_generate_try model req_body of
        (Inl err, calls) \<Rightarrow> (Internal_server_error, calls)
      | (Inr res, calls) \<Rightarrow> (res, calls))\<close>

section \<open>The component vocabulary as a predicate on plans\<close>

text \<open>
  The handler never reads \<open>ALLOWED_COMPONENTS\<close> after the parsing step, and the required
  props exist only as text inside the two templates (\<^verbatim>\<open>1) Sidebar  Required props: ...\<close>).
  The predicate below says what that text asks of a plan, so that plans which break it can
  be named.
\<close>

fun required_props :: \<open>string \<Rightarrow> string list\<close> where
  \<open>required_props name =
     (if name = ''Sidebar'' then [''header'', ''items'']
      else if name = ''Card'' then [''title'', ''content'', ''description'']
      else if name = ''Button'' then [''label'']
      else if name = ''Input'' then [''placeholder'']
      else if name = ''Navbar'' then [''title'']
      else if name = ''Modal'' then [''title'']
      else if name = ''Chart'' then [''title'']
      else [])\<close>

fun non_empty :: \<open>json \<Rightarrow> bool\<close> where
  \<open>non_empty JNull = False\<close>
| \<open>non_empty (JStr s) = (s \<noteq> [])\<close>
| \<open>non_empty (JArr xs) = (xs \<noteq> [])\<close>
| \<open>non_empty (JObj kvs) = (kvs \<noteq> [])\<close>
| \<open>non_empty (JBool b) = True\<close>
| \<open>non_empty (JNum t) = True\<close>

definition component_valid :: \<open>json \<Rightarrow> bool\<close> where
  \<open>component_valid c =
     (case Get c ''name'' of
        Some (JStr name) \<Rightarrow>
          name \<in> set ALLOWED_COMPONENTS \<and>
          (case Get c ''props'' of
             Some props \<Rightarrow>
               list_all (\<lambda>p. case Get props p of Some v \<Rightarrow> non_empty v | None \<Rightarrow> False)
                 (required_props name)
           | None \<Rightarrow> False)
      | _ \<Rightarrow> False)\<close>

definition plan_valid :: \<open>json \<Rightarrow> bool\<close> where
  \<open>plan_valid plan =
     (case Get plan ''components'' of
        Some (JArr cs) \<Rightarrow> list_all component_valid cs
      | _ \<Rightarrow> False)\<close>

section \<open>Test doubles\<close>

text \<open>
  A model client that answers the \<open>n\<close>-th call of a request with the \<open>n\<close>-th entry of a
  script (\<open>None\<close>: the call throws), and a runtime that knows the two plan texts used
  below, with the values \<^verbatim>\<open>JSON.parse\<close> gives for them and their
  \<^verbatim>\<open>JSON.stringify(plan, null, 2)\<close> texts.
\<close>

definition stub_client :: \<open>string option list \<Rightarrow> client\<close> where
  \<open>stub_client replies calls prompt =
     (if length calls < length replies then replies ! length calls else None)\<close>

definition button_plan_text :: \<open>string\<close> where
  \<open>button_plan_text =
     ''{"type":"create","components":[{"name":"Button","props":{"label":"OK"}}]}''\<close>

definition button_plan :: \<open>json\<close> where
  \<open>button_plan =
     JObj [(''type'', JStr ''create''),
           (''components'',
            JArr [JObj [(''name'', JStr ''Button''),
                        (''props'', JObj [(''label'', JStr ''OK'')])]])]\<close>

definition button_plan_pretty :: \<open>string\<close> where
  \<open>button_plan_pretty =
     join [newline]
       [''{'',
        ''  "type": "create",'',
        ''  "components": ['',
        ''    {'',
        ''      "name": "Button",'',
        ''      "props": {'',
        ''        "label": "OK"'',
        ''      }'',
        ''    }'',
        ''  ]'',
        ''}'']\<close>

definition table_plan_text :: \<open>string\<close> where
  \<open>table_plan_text =
     ''{"type":"create","components":[{"name":"Table","props":{}}]}''\<close>

definition table_plan :: \<open>json\<close> where
  \<open>table_plan =
     JObj [(''type'', JStr ''create''),
           (''components'',
            JArr [JObj [(''name'', JStr ''Table''), (''props'', JObj [])]])]\<close>

definition table_plan_pretty :: \<open>string\<close> where
  \<open>table_plan_pretty =
     join [newline]
       [''{'',
        ''  "type": "create",'',
        ''  "components": ['',
        ''    {'',
        ''      "name": "Table",'',
        ''      "props": {}'',
        ''    }'',
        ''  ]'',
        ''}'']\<close>

definition stub_runtime :: \<open>runtime\<close> where
  \<open>stub_runtime =
     \<lparr>JSON_parse =
        (\<lambda>s. if s = button_plan_text then Some button_plan
             else if s = table_plan_text then Some table_plan
             else None),
      JSON_stringify =
        (\<lambda>v. if v = button_plan then button_plan_pretty
             else if v = table_plan then table_plan_pretty
             else ''null'')\<rparr>\<close>

definition dashboard_request :: \<open>json option\<close> where
  \<open>dashboard_request =
     Some (JObj [(''message'', JStr ''Create a dashboard with user stats'')])\<close>

definition dashboard_message :: \<open>json option\<close> where
  \<open>dashboard_message = Some (JStr ''Create a dashboard with user stats'')\<close>

definition dashboard_planner_prompt :: \<open>string\<close> where
  \<open>dashboard_planner_prompt =
     plannerPrompt_head @ ''Create a dashboard with user stats'' @ ''"'' @
     previous_ui_heading @ ''None'' @ [newline]\<close>

definition button_generator_prompt :: \<open>string\<close> where
  \<open>button_generator_prompt =
     generatorPrompt_head @ button_plan_pretty @ previous_ui_heading @ ''None'' @ [newline]\<close>

definition table_generator_prompt :: \<open>string\<close> where
  \<open>table_generator_prompt =
     generatorPrompt_head @ table_plan_pretty @ previous_ui_heading @ ''None'' @ [newline]\<close>

definition planner_reply :: \<open>string\<close> where
  \<open>planner_reply = '' '' @ button_plan_text @ [newline]\<close>

definition jsx_reply :: \<open>string\<close> where
  \<open>jsx_reply = ''<><Button label="OK" /></>''\<close>

definition prose_reply :: \<open>string\<close> where
  \<open>prose_reply = ''A Button was selected to confirm.''\<close>


section \<open>Facts about the handler shared by the properties\<close>

lemma generate_success:
  assumes \<open>destructure req_body = Inr (message, previousCode)\<close>
    and \<open>ToBoolean message\<close>
    and \<open>plannerPrompt message previousCode = Inr pp\<close>
    and \<open>model [] pp = Some planner_text\<close>
    and \<open>JSON_parse J (trim planner_text) = Some plan\<close>
    and \<open>generatorPrompt J plan previousCode = Inr gp\<close>
    and \<open>model [pp] gp = Some code\<close>
    and \<open>model [pp, gp] (explainerPrompt J plan) = Some explanation\<close>
  shows \<open>generate J model req_body =
           (\<lparr>status = 200,
             body = JObj [(''plan'', plan), (''code'', JStr code),
                          (''explanation'', JStr explanation)]\<rparr>,
            [pp, gp, explainerPrompt J plan])\<close>
  using assms by (simp add: generate_def generate_try_def generateContent_def)

lemma generate_200_inversion:
  assumes \<open>status (fst (generate J model req_body)) = 200\<close>
  shows \<open>\<exists>message previousCode pp planner_text plan gp code explanation.
           destructure req_body = Inr (message, previousCode) \<and> ToBoolean message \<and>
           plannerPrompt message previousCode = Inr pp \<and>
           model [] pp = Some planner_text \<and>
           JSON_parse J (trim planner_text) = Some plan \<and>
           generatorPrompt J plan previousCode = Inr gp \<and>
           model [pp] gp = Some code \<and>
           model [pp, gp] (explainerPrompt J plan) = Some explanation\<close>
  using assms
  by (auto simp add: generate_def generate_try_def generateContent_def
        Input_message_required_def Internal_server_error_def
      split: sum.splits option.splits prod.splits if_splits)

lemma generator_prompt_after_planner:
  assumes \<open>plannerPrompt message previousCode = Inr pp\<close>
  shows \<open>\<exists>p. previous_ui previousCode = Inr p \<and>
             generatorPrompt J plan previousCode =
               Inr (generatorPrompt_head @ JSON_stringify J plan @ previous_ui_heading @ p @ [newline])\<close>
  using assms by (auto simp add: plannerPrompt_def generatorPrompt_def split: sum.splits)

lemma first_call:
  assumes \<open>destructure req_body = Inr (message, previousCode)\<close>
  shows \<open>take (Suc 0) (snd (generate J model req_body)) =
           (if ToBoolean message
            then (case plannerPrompt message previousCode of Inl e \<Rightarrow> [] | Inr pp \<Rightarrow> [pp])
            else [])\<close>
  using assms
  by (auto simp add: generate_def generate_try_def generateContent_def
      split: sum.splits option.splits prod.splits)

lemma dashboard_destructure:
  \<open>destructure dashboard_request = Inr (dashboard_message, None)\<close>
  by (simp add: dashboard_request_def dashboard_message_def)

lemma dashboard_truthy: \<open>ToBoolean dashboard_message\<close>
  by (simp add: dashboard_message_def)

lemma dashboard_plannerPrompt:
  \<open>plannerPrompt dashboard_message None = Inr dashboard_planner_prompt\<close>
  by (simp add: plannerPrompt_def previous_ui_def dashboard_message_def
      dashboard_planner_prompt_def)

lemma trim_planner_reply: \<open>trim planner_reply = button_plan_text\<close>
  by (simp add: trim_def planner_reply_def button_plan_text_def is_white_space_def newline_def)

lemma parse_planner_reply: \<open>JSON_parse stub_runtime (trim planner_reply) = Some button_plan\<close>
  by (simp add: trim_planner_reply stub_runtime_def)

lemma trim_table_plan_text: \<open>trim table_plan_text = table_plan_text\<close>
  by (simp add: trim_def table_plan_text_def is_white_space_def)

lemma table_text_not_button_text: \<open>table_plan_text \<noteq> button_plan_text\<close>
  by (simp add: table_plan_text_def button_plan_text_def)

lemma table_not_button: \<open>table_plan \<noteq> button_plan\<close>
  by (simp add: table_plan_def button_plan_def)

lemma parse_table_plan_text: \<open>JSON_parse stub_runtime (trim table_plan_text) = Some table_plan\<close>
  by (simp add: trim_table_plan_text stub_runtime_def table_text_not_button_text)

lemma parse_not_json: \<open>JSON_parse stub_runtime (trim ''not json'') = None\<close>
  by (simp add: trim_def is_white_space_def stub_runtime_def button_plan_text_def
      table_plan_text_def)

lemma button_generatorPrompt:
  \<open>generatorPrompt stub_runtime button_plan None = Inr button_generator_prompt\<close>
  by (simp add: generatorPrompt_def previous_ui_def stub_runtime_def button_generator_prompt_def)

lemma table_generatorPrompt:
  \<open>generatorPrompt stub_runtime table_plan None = Inr table_generator_prompt\<close>
  by (simp add: generatorPrompt_def previous_ui_def stub_runtime_def table_generator_prompt_def
      table_not_button)


section \<open>The success response\<close>

text \<open>
  C1. When the message guard passes, the planner's text parses and the three calls of the
  model client succeed, the handler answers 200 with a body of exactly three fields:
  \<open>plan\<close>, the parsed planner output, \<open>code\<close>, the generator's text, and
  \<open>explanation\<close>, the explainer's text.
\<close>

theorem handler_success_response:
  assumes \<open>destructure req_body = Inr (message, previousCode)\<close>
    and \<open>ToBoolean message\<close>
    and \<open>plannerPrompt message previousCode = Inr pp\<close>
    and \<open>model [] pp = Some planner_text\<close>
    and \<open>JSON_parse J (trim planner_text) = Some plan\<close>
    and \<open>generatorPrompt J plan previousCode = Inr gp\<close>
    and \<open>model [pp] gp = Some code\<close>
    and \<open>model [pp, gp] (explainerPrompt J plan) = Some explanation\<close>
  shows \<open>fst (generate J model req_body) =
           \<lparr>status = 200,
            body = JObj [(''plan'', plan), (''code'', JStr code),
                         (''explanation'', JStr explanation)]\<rparr>\<close>
  using generate_success [OF assms] by simp

theorem handler_success_response_witness:
  \<open>fst (generate stub_runtime
          (stub_client [Some planner_reply, Some jsx_reply, Some prose_reply])
          dashboard_request) =
     \<lparr>status = 200,
      body = JObj [(''plan'', button_plan), (''code'', JStr jsx_reply),
                   (''explanation'', JStr prose_reply)]\<rparr>\<close>
  by (rule handler_success_response
        [OF dashboard_destructure dashboard_truthy dashboard_plannerPrompt _
            parse_planner_reply button_generatorPrompt])
     (simp_all add: stub_client_def)

section \<open>A planner text that does not parse\<close>

text \<open>
  C2, as the code has it. When the planner's text does not parse, the handler answers
  with the one generic 500 response, and the planner call is the only call made.
\<close>

theorem malformed_plan_generic_500:
  assumes \<open>destructure req_body = Inr (message, previousCode)\<close>
    and \<open>ToBoolean message\<close>
    and \<open>plannerPrompt message previousCode = Inr pp\<close>
    and \<open>model [] pp = Some planner_text\<close>
    and \<open>JSON_parse J (trim planner_text) = None\<close>
  shows \<open>generate J model req_body =
           (\<lparr>status = 500, body = JObj [(''message'', JStr ''Internal server error'')]\<rparr>,
            [pp])\<close>
  using assms
  by (simp add: generate_def generate_try_def generateContent_def Internal_server_error_def)

theorem malformed_plan_generic_500_witness:
  \<open>generate stub_runtime (stub_client [Some ''not json'', Some jsx_reply, Some prose_reply])
      dashboard_request =
     (\<lparr>status = 500, body = JObj [(''message'', JStr ''Internal server error'')]\<rparr>,
      [dashboard_planner_prompt])\<close>
  by (rule malformed_plan_generic_500
        [OF dashboard_destructure dashboard_truthy dashboard_plannerPrompt _ parse_not_json])
     (simp add: stub_client_def)

text \<open>
  The response to the text \<^verbatim>\<open>not json\<close> names no malformed plan: it is the response
  given when the model client itself fails on the first call.
\<close>

theorem malformed_plan_counterexample:
  \<open>fst (generate stub_runtime (stub_client [Some ''not json'']) dashboard_request) =
     \<lparr>status = 500, body = JObj [(''message'', JStr ''Internal server error'')]\<rparr> \<and>
   fst (generate stub_runtime (stub_client [Some ''not json'']) dashboard_request) =
     fst (generate stub_runtime (stub_client [None]) dashboard_request)\<close>
  by (simp add: generate_def generate_try_def generateContent_def Internal_server_error_def
      dashboard_destructure dashboard_truthy dashboard_plannerPrompt parse_not_json
      stub_client_def)

section \<open>The message guard\<close>




section \<open>Failures after the guard\<close>

text \<open>
  C4. When the guard has passed and a stage fails (the model client throws on the first,
  the second or the third call, or the planner's text does not parse), the handler answers
  500 with the body \<^verbatim>\<open>{"message": "Internal server error"}\<close>, which has no \<open>plan\<close>, no
  \<open>code\<close> and no \<open>explanation\<close>.
\<close>

theorem stage_failure_500:
  assumes \<open>destructure req_body = Inr (message, previousCode)\<close>
    and \<open>ToBoolean message\<close>
    and \<open>plannerPrompt message previousCode = Inr pp\<close>
    and \<open>model [] pp = None
       \<or> (\<exists>t. model [] pp = Some t \<and> JSON_parse J (trim t) = None)
       \<or> (\<exists>t plan gp. model [] pp = Some t \<and> JSON_parse J (trim t) = Some plan \<and>
             generatorPrompt J plan previousCode = Inr gp \<and> model [pp] gp = None)
       \<or> (\<exists>t plan gp code. model [] pp = Some t \<and> JSON_parse J (trim t) = Some plan \<and>
             generatorPrompt J plan previousCode = Inr gp \<and> model [pp] gp = Some code \<and>
             model [pp, gp] (explainerPrompt J plan) = None)\<close>
  shows \<open>fst (generate J model req_body) =
           \<lparr>status = 500, body = JObj [(''message'', JStr ''Internal server error'')]\<rparr> \<and>
         Get (body (fst (generate J model req_body))) ''plan'' = None \<and>
         Get (body (fst (generate J model req_body))) ''code'' = None \<and>
         Get (body (fst (generate J model req_body))) ''explanation'' = None\<close>
proof -
  have \<open>fst (generate J model req_body) = Internal_server_error\<close>
    using assms
    by (auto simp add: generate_def generate_try_def generateContent_def)
  then show ?thesis
    by (simp add: Internal_server_error_def)
qed

theorem stage_failure_500_witness:
  \<open>fst (generate stub_runtime (stub_client [Some planner_reply, None]) dashboard_request) =
     \<lparr>status = 500, body = JObj [(''message'', JStr ''Internal server error'')]\<rparr> \<and>
   Get (body (fst (generate stub_runtime (stub_client [Some planner_reply, None])
     dashboard_request))) ''plan'' = None \<and>
   Get (body (fst (generate stub_runtime (stub_client [Some planner_reply, None])
     dashboard_request))) ''code'' = None \<and>
   Get (body (fst (generate stub_runtime (stub_client [Some planner_reply, None])
     dashboard_request))) ''explanation'' = None\<close>
proof (rule stage_failure_500
    [OF dashboard_destructure dashboard_truthy dashboard_plannerPrompt])
  have \<open>stub_client [Some planner_reply, None] [] dashboard_planner_prompt = Some planner_reply\<close>
    by (simp add: stub_client_def)
  moreover have \<open>stub_client [Some planner_reply, None] [dashboard_planner_prompt]
      button_generator_prompt = None\<close>
    by (simp add: stub_client_def)
  ultimately show \<open>stub_client [Some planner_reply, None] [] dashboard_planner_prompt = None
       \<or> (\<exists>t. stub_client [Some planner_reply, None] [] dashboard_planner_prompt = Some t \<and>
             JSON_parse stub_runtime (trim t) = None)
       \<or> (\<exists>t plan gp. stub_client [Some planner_reply, None] [] dashboard_planner_prompt = Some t \<and>
             JSON_parse stub_runtime (trim t) = Some plan \<and>
             generatorPrompt stub_runtime plan None = Inr gp \<and>
             stub_client [Some planner_reply, None] [dashboard_planner_prompt] gp = None)
       \<or> (\<exists>t plan gp code. stub_client [Some planner_reply, None] [] dashboard_planner_prompt = Some t \<and>
             JSON_parse stub_runtime (trim t) = Some plan \<and>
             generatorPrompt stub_runtime plan None = Inr gp \<and>
             stub_client [Some planner_reply, None] [dashboard_planner_prompt] gp = Some code \<and>
             stub_client [Some planner_reply, None] [dashboard_planner_prompt, gp]
               (explainerPrompt stub_runtime plan) = None)\<close>
    using parse_planner_reply button_generatorPrompt by blast
qed


section \<open>What is forwarded to the generation stage\<close>

text \<open>
  C5, as the code has it. Every value the planner's text parses to is forwarded: the
  second call of the model client is made with the generator prompt that embeds the
  serialized plan, whatever component names and props the plan has. The vocabulary reaches
  the model only as text of the prompts.
\<close>

theorem parsed_plan_forwarded:
  assumes \<open>destructure req_body = Inr (message, previousCode)\<close>
    and \<open>ToBoolean message\<close>
    and \<open>plannerPrompt message previousCode = Inr pp\<close>
    and \<open>model [] pp = Some planner_text\<close>
    and \<open>JSON_parse J (trim planner_text) = Some plan\<close>
  shows \<open>\<exists>gp. generatorPrompt J plan previousCode = Inr gp \<and>
              sublist (JSON_stringify J plan) gp \<and>
              take 2 (snd (generate J model req_body)) = [pp, gp]\<close>
proof -
  from generator_prompt_after_planner [OF assms(3)] obtain p where
    gp: \<open>generatorPrompt J plan previousCode =
           Inr (generatorPrompt_head @ JSON_stringify J plan @ previous_ui_heading @ p @ [newline])\<close>
    by blast
  have \<open>take 2 (snd (generate J model req_body)) =
          [pp, generatorPrompt_head @ JSON_stringify J plan @ previous_ui_heading @ p @ [newline]]\<close>
    using assms gp
    by (auto simp add: generate_def generate_try_def generateContent_def
        split: option.splits)
  with gp show ?thesis
    by (auto intro: sublist_appendI)
qed

theorem parsed_plan_forwarded_witness:
  \<open>\<exists>gp. generatorPrompt stub_runtime table_plan None = Inr gp \<and>
         sublist (JSON_stringify stub_runtime table_plan) gp \<and>
         take 2 (snd (generate stub_runtime
            (stub_client [Some table_plan_text, Some jsx_reply, Some prose_reply])
            dashboard_request)) = [dashboard_planner_prompt, gp]\<close>
  by (rule parsed_plan_forwarded
        [OF dashboard_destructure dashboard_truthy dashboard_plannerPrompt _
            parse_table_plan_text])
     (simp add: stub_client_def)

text \<open>
  A plan whose only component is named \<^verbatim>\<open>Table\<close>, with no props, is outside the
  vocabulary; it goes through the generation and explanation stages and comes back in a
  200 response.
\<close>

theorem invalid_plan_counterexample:
  \<open>\<not> plan_valid table_plan \<and>
   generate stub_runtime (stub_client [Some table_plan_text, Some jsx_reply, Some prose_reply])
     dashboard_request =
     (\<lparr>status = 200,
       body = JObj [(''plan'', table_plan), (''code'', JStr jsx_reply),
                    (''explanation'', JStr prose_reply)]\<rparr>,
      [dashboard_planner_prompt, table_generator_prompt,
       explainerPrompt stub_runtime table_plan])\<close>
proof
  show \<open>\<not> plan_valid table_plan\<close>
    by (simp add: plan_valid_def component_valid_def table_plan_def ALLOWED_COMPONENTS_def)
  show \<open>generate stub_runtime
      (stub_client [Some table_plan_text, Some jsx_reply, Some prose_reply])
      dashboard_request =
     (\<lparr>status = 200,
       body = JObj [(''plan'', table_plan), (''code'', JStr jsx_reply),
                    (''explanation'', JStr prose_reply)]\<rparr>,
      [dashboard_planner_prompt, table_generator_prompt,
       explainerPrompt stub_runtime table_plan])\<close>
    by (rule generate_success
          [OF dashboard_destructure dashboard_truthy dashboard_plannerPrompt _
              parse_table_plan_text table_generatorPrompt])
       (simp_all add: stub_client_def)
qed

section \<open>The order of the calls\<close>

text \<open>
  C6. A request answered with 200 has made exactly three calls of the model client, in
  the order planner, generator, explainer; the generator prompt and the explainer prompt
  embed the serialized plan that the planner's text parsed to; and the fields \<open>plan\<close>,
  \<open>code\<close> and \<open>explanation\<close> of the response are the parsed text of the first call and
  the texts of the second and the third.
\<close>

theorem success_three_calls_in_order:
  assumes \<open>status (fst (generate J model req_body)) = 200\<close>
  shows \<open>\<exists>message previousCode pp planner_text plan gp code explanation.
           destructure req_body = Inr (message, previousCode) \<and>
           plannerPrompt message previousCode = Inr pp \<and>
           generatorPrompt J plan previousCode = Inr gp \<and>
           snd (generate J model req_body) = [pp, gp, explainerPrompt J plan] \<and>
           model [] pp = Some planner_text \<and>
           JSON_parse J (trim planner_text) = Some plan \<and>
           model [pp] gp = Some code \<and>
           model [pp, gp] (explainerPrompt J plan) = Some explanation \<and>
           sublist (JSON_stringify J plan) gp \<and>
           sublist (JSON_stringify J plan) (explainerPrompt J plan) \<and>
           body (fst (generate J model req_body)) =
             JObj [(''plan'', plan), (''code'', JStr code),
                   (''explanation'', JStr explanation)]\<close>
proof -
  from generate_200_inversion [OF assms] obtain message previousCode pp planner_text plan gp
      code explanation where
    h: \<open>destructure req_body = Inr (message, previousCode)\<close> \<open>ToBoolean message\<close>
      \<open>plannerPrompt message previousCode = Inr pp\<close>
      \<open>model [] pp = Some planner_text\<close>
      \<open>JSON_parse J (trim planner_text) = Some plan\<close>
      \<open>generatorPrompt J plan previousCode = Inr gp\<close>
      \<open>model [pp] gp = Some code\<close>
      \<open>model [pp, gp] (explainerPrompt J plan) = Some explanation\<close>
    by (elim exE conjE)
  note run = generate_success [OF h]
  have calls: \<open>snd (generate J model req_body) = [pp, gp, explainerPrompt J plan]\<close>
    by (simp add: run)
  have res: \<open>body (fst (generate J model req_body)) =
      JObj [(''plan'', plan), (''code'', JStr code), (''explanation'', JStr explanation)]\<close>
    by (simp add: run)
  have in_gp: \<open>sublist (JSON_stringify J plan) gp\<close>
    using generator_prompt_after_planner [OF h(3), of J plan] h(6)
    by (auto intro: sublist_appendI)
  have in_ep: \<open>sublist (JSON_stringify J plan) (explainerPrompt J plan)\<close>
    by (simp add: explainerPrompt_def sublist_appendI)
  from h(1) h(3) h(6) calls h(4) h(5) h(7) h(8) in_gp in_ep res
  show ?thesis
    by (intro exI conjI)
qed

theorem success_three_calls_in_order_witness:
  \<open>\<exists>message previousCode pp planner_text plan gp code explanation.
     destructure dashboard_request = Inr (message, previousCode) \<and>
     plannerPrompt message previousCode = Inr pp \<and>
     generatorPrompt stub_runtime plan previousCode = Inr gp \<and>
     snd (generate stub_runtime
            (stub_client [Some planner_reply, Some jsx_reply, Some prose_reply])
            dashboard_request) = [pp, gp, explainerPrompt stub_runtime plan] \<and>
     stub_client [Some planner_reply, Some jsx_reply, Some prose_reply] [] pp =
       Some planner_text \<and>
     JSON_parse stub_runtime (trim planner_text) = Some plan \<and>
     stub_client [Some planner_reply, Some jsx_reply, Some prose_reply] [pp] gp = Some code \<and>
     stub_client [Some planner_reply, Some jsx_reply, Some prose_reply] [pp, gp]
       (explainerPrompt stub_runtime plan) = Some explanation \<and>
     sublist (JSON_stringify stub_runtime plan) gp \<and>
     sublist (JSON_stringify stub_runtime plan) (explainerPrompt stub_runtime plan) \<and>
     body (fst (generate stub_runtime
            (stub_client [Some planner_reply, Some jsx_reply, Some prose_reply])
            dashboard_request)) =
       JObj [(''plan'', plan), (''code'', JStr code), (''explanation'', JStr explanation)]\<close>
proof (rule success_three_calls_in_order)
  have \<open>generate stub_runtime
      (stub_client [Some planner_reply, Some jsx_reply, Some prose_reply]) dashboard_request =
     (\<lparr>status = 200,
       body = JObj [(''plan'', button_plan), (''code'', JStr jsx_reply),
                    (''explanation'', JStr prose_reply)]\<rparr>,
      [dashboard_planner_prompt, button_generator_prompt,
       explainerPrompt stub_runtime button_plan])\<close>
    by (rule generate_success
          [OF dashboard_destructure dashboard_truthy dashboard_plannerPrompt _
              parse_planner_reply button_generatorPrompt])
       (simp_all add: stub_client_def)
  then show \<open>status (fst (generate stub_runtime
      (stub_client [Some planner_reply, Some jsx_reply, Some prose_reply])
      dashboard_request)) = 200\<close>
    by simp
qed

section \<open>The prompts depend on the structured inputs only\<close>

text \<open>
  C7. The prompts are functions of \<open>message\<close>, \<open>previousCode\<close> and \<open>plan\<close> alone. Two
  invocations with the same \<open>message\<close> and \<open>previousCode\<close> send the same planner prompt,
  whatever the model client does; and when both end in a 200 response with the same
  \<open>plan\<close>, the three prompts they sent are the same texts, whatever the other replies
  were.
\<close>

theorem prompts_deterministic:
  assumes \<open>destructure req1 = Inr (message, previousCode)\<close>
    and \<open>destructure req2 = Inr (message, previousCode)\<close>
  shows \<open>take (Suc 0) (snd (generate J model1 req1)) =
           take (Suc 0) (snd (generate J model2 req2)) \<and>
         (\<forall>plan code1 explanation1 code2 explanation2.
            fst (generate J model1 req1) =
              \<lparr>status = 200,
               body = JObj [(''plan'', plan), (''code'', JStr code1),
                            (''explanation'', JStr explanation1)]\<rparr> \<and>
            fst (generate J model2 req2) =
              \<lparr>status = 200,
               body = JObj [(''plan'', plan), (''code'', JStr code2),
                            (''explanation'', JStr explanation2)]\<rparr> \<longrightarrow>
            snd (generate J model1 req1) = snd (generate J model2 req2))\<close>
proof (intro conjI allI impI)
  show \<open>take (Suc 0) (snd (generate J model1 req1)) =
        take (Suc 0) (snd (generate J model2 req2))\<close>
    by (simp add: first_call [OF assms(1)] first_call [OF assms(2)])
next
  fix plan code1 explanation1 code2 explanation2
  assume ok:
    \<open>fst (generate J model1 req1) =
       \<lparr>status = 200,
        body = JObj [(''plan'', plan), (''code'', JStr code1),
                     (''explanation'', JStr explanation1)]\<rparr> \<and>
     fst (generate J model2 req2) =
       \<lparr>status = 200,
        body = JObj [(''plan'', plan), (''code'', JStr code2),
                     (''explanation'', JStr explanation2)]\<rparr>\<close>
  have calls: \<open>\<exists>pp gp. plannerPrompt message previousCode = Inr pp \<and>
                 generatorPrompt J plan previousCode = Inr gp \<and>
                 snd (generate J model req) = [pp, gp, explainerPrompt J plan]\<close>
    if d: \<open>destructure req = Inr (message, previousCode)\<close>
      and r: \<open>fst (generate J model req) =
               \<lparr>status = 200,
                body = JObj [(''plan'', plan), (''code'', JStr code),
                             (''explanation'', JStr explanation)]\<rparr>\<close>
    for model req code explanation
  proof -
    have \<open>status (fst (generate J model req)) = 200\<close>
      using r by simp
    from generate_200_inversion [OF this] d obtain pp planner_text plan' gp code' explanation'
      where h: \<open>destructure req = Inr (message, previousCode)\<close> \<open>ToBoolean message\<close>
        \<open>plannerPrompt message previousCode = Inr pp\<close>
        \<open>model [] pp = Some planner_text\<close>
        \<open>JSON_parse J (trim planner_text) = Some plan'\<close>
        \<open>generatorPrompt J plan' previousCode = Inr gp\<close>
        \<open>model [pp] gp = Some code'\<close>
        \<open>model [pp, gp] (explainerPrompt J plan') = Some explanation'\<close>
      by auto
    note run = generate_success [OF h]
    with r have \<open>plan' = plan\<close>
      by simp
    with h run show ?thesis
      by simp
  qed
  from calls [OF assms(1) conjunct1 [OF ok]] calls [OF assms(2) conjunct2 [OF ok]]
  show \<open>snd (generate J model1 req1) = snd (generate J model2 req2)\<close>
    by auto
qed


lemma trim_button_plan_text: \<open>trim button_plan_text = button_plan_text\<close>
  by (simp add: trim_def button_plan_text_def is_white_space_def)

lemma parse_button_plan_text:
  \<open>JSON_parse stub_runtime (trim button_plan_text) = Some button_plan\<close>
  by (simp add: trim_button_plan_text stub_runtime_def)

theorem prompts_deterministic_witness:
  \<open>fst (generate stub_runtime
          (stub_client [Some planner_reply, Some jsx_reply, Some prose_reply])
          dashboard_request) =
     \<lparr>status = 200,
      body = JObj [(''plan'', button_plan), (''code'', JStr jsx_reply),
                   (''explanation'', JStr prose_reply)]\<rparr> \<and>
   fst (generate stub_runtime
          (stub_client [Some button_plan_text, Some ''<></>'', Some ''Nothing to say.''])
          dashboard_request) =
     \<lparr>status = 200,
      body = JObj [(''plan'', button_plan), (''code'', JStr ''<></>''),
                   (''explanation'', JStr ''Nothing to say.'')]\<rparr> \<and>
   snd (generate stub_runtime
          (stub_client [Some planner_reply, Some jsx_reply, Some prose_reply])
          dashboard_request) =
   snd (generate stub_runtime
          (stub_client [Some button_plan_text, Some ''<></>'', Some ''Nothing to say.''])
          dashboard_request)\<close>
proof -
  have r1: \<open>generate stub_runtime
      (stub_client [Some planner_reply, Some jsx_reply, Some prose_reply]) dashboard_request =
     (\<lparr>status = 200,
       body = JObj [(''plan'', button_plan), (''code'', JStr jsx_reply),
                    (''explanation'', JStr prose_reply)]\<rparr>,
      [dashboard_planner_prompt, button_generator_prompt,
       explainerPrompt stub_runtime button_plan])\<close>
    by (rule generate_success
          [OF dashboard_destructure dashboard_truthy dashboard_plannerPrompt _
              parse_planner_reply button_generatorPrompt])
       (simp_all add: stub_client_def)
  have r2: \<open>generate stub_runtime
      (stub_client [Some button_plan_text, Some ''<></>'', Some ''Nothing to say.''])
      dashboard_request =
     (\<lparr>status = 200,
       body = JObj [(''plan'', button_plan), (''code'', JStr ''<></>''),
                    (''explanation'', JStr ''Nothing to say.'')]\<rparr>,
      [dashboard_planner_prompt, button_generator_prompt,
       explainerPrompt stub_runtime button_plan])\<close>
    by (rule generate_success
          [OF dashboard_destructure dashboard_truthy dashboard_plannerPrompt _
              parse_button_plan_text button_generatorPrompt])
       (simp_all add: stub_client_def)
  have f1: \<open>fst (generate stub_runtime
          (stub_client [Some planner_reply, Some jsx_reply, Some prose_reply])
          dashboard_request) =
     \<lparr>status = 200,
      body = JObj [(''plan'', button_plan), (''code'', JStr jsx_reply),
                   (''explanation'', JStr prose_reply)]\<rparr>\<close>
    by (simp add: r1)
  have f2: \<open>fst (generate stub_runtime
          (stub_client [Some button_plan_text, Some ''<></>'', Some ''Nothing to say.''])
          dashboard_request) =
     \<lparr>status = 200,
      body = JObj [(''plan'', button_plan), (''code'', JStr ''<></>''),
                   (''explanation'', JStr ''Nothing to say.'')]\<rparr>\<close>
    by (simp add: r2)
  note same = prompts_deterministic [OF dashboard_destructure dashboard_destructure,
      THEN conjunct2, rule_format, OF conjI [OF f1 f2]]
  from f1 f2 same show ?thesis
    by (intro conjI)
qed

section \<open>The previous-UI section of the prompts\<close>

text \<open>
  C8, as the code has it. The generator prompt ends with the previous-UI section. When
  \<open>previousCode\<close> is a non-empty string, the section holds that string verbatim; when
  \<open>previousCode\<close> is falsy (absent, \<^verbatim>\<open>null\<close>, or the empty string), the section holds the
  marker \<^verbatim>\<open>None\<close>, whatever the type of the plan is.
\<close>

theorem generator_previous_ui_section:
  \<open>(s \<noteq> [] \<longrightarrow>
      generatorPrompt J plan (Some (JStr s)) =
        Inr (generatorPrompt_head @ JSON_stringify J plan @ previous_ui_heading @ s @ [newline])) \<and>
   (\<not> ToBoolean previousCode \<longrightarrow>
      generatorPrompt J plan previousCode =
        Inr (generatorPrompt_head @ JSON_stringify J plan @ previous_ui_heading @ ''None'' @
             [newline]))\<close>
  by (simp add: generatorPrompt_def previous_ui_def)

theorem generator_previous_ui_section_witness:
  \<open>generatorPrompt stub_runtime button_plan (Some (JStr jsx_reply)) =
     Inr (generatorPrompt_head @ JSON_stringify stub_runtime button_plan @ previous_ui_heading @
          jsx_reply @ [newline]) \<and>
   generatorPrompt stub_runtime button_plan (Some JNull) =
     Inr (generatorPrompt_head @ JSON_stringify stub_runtime button_plan @ previous_ui_heading @
          ''None'' @ [newline])\<close>
proof
  have \<open>jsx_reply \<noteq> []\<close>
    by (simp add: jsx_reply_def)
  then show \<open>generatorPrompt stub_runtime button_plan (Some (JStr jsx_reply)) =
     Inr (generatorPrompt_head @ JSON_stringify stub_runtime button_plan @ previous_ui_heading @
          jsx_reply @ [newline])\<close>
    by (rule generator_previous_ui_section [THEN conjunct1, rule_format])
  have \<open>\<not> ToBoolean (Some JNull)\<close>
    by simp
  then show \<open>generatorPrompt stub_runtime button_plan (Some JNull) =
     Inr (generatorPrompt_head @ JSON_stringify stub_runtime button_plan @ previous_ui_heading @
          ''None'' @ [newline])\<close>
    by (rule generator_previous_ui_section [THEN conjunct2, rule_format])
qed

text \<open>
  The empty string is a \<open>previousCode\<close> that is not \<^verbatim>\<open>null\<close>, and the section does not
  hold it: the prompt is not the one with the empty artifact after the heading, it is the
  one with the marker.
\<close>

theorem generator_previous_ui_counterexample:
  \<open>generatorPrompt stub_runtime button_plan (Some (JStr [])) \<noteq>
     Inr (generatorPrompt_head @ JSON_stringify stub_runtime button_plan @ previous_ui_heading @
          [] @ [newline]) \<and>
   generatorPrompt stub_runtime button_plan (Some (JStr [])) =
     Inr (generatorPrompt_head @ JSON_stringify stub_runtime button_plan @ previous_ui_heading @
          ''None'' @ [newline])\<close>
  by (simp add: generatorPrompt_def previous_ui_def)

section \<open>The guard tests truthiness\<close>

lemma passed_guard_not_400:
  assumes \<open>destructure req_body = Inr (message, previousCode)\<close>
    and \<open>ToBoolean message\<close>
  shows \<open>status (fst (generate J model req_body)) \<noteq> 400\<close>
  using assms
  by (auto simp add: generate_def generate_try_def generateContent_def
        Internal_server_error_def
      split: sum.splits option.splits prod.splits)

text \<open>
  C9, as the code has it. The guard answers 400 exactly when \<open>message\<close> is falsy. A
  truthy \<open>message\<close> of any type passes it, and when the conversion of \<open>message\<close> and of
  \<open>previousCode\<close> to text succeeds, the first call is made with the planner prompt that
  holds the text of \<open>message\<close> between the quotes: a string as it is, blank or not, a
  number as its digits, an object with no own \<^verbatim>\<open>toString\<close> property as
  \<^verbatim>\<open>[object Object]\<close>.
\<close>

theorem guard_tests_truthiness:
  assumes \<open>destructure req_body = Inr (message, previousCode)\<close>
  shows \<open>(fst (generate J model req_body) =
            \<lparr>status = 400, body = JObj [(''message'', JStr ''Input message required'')]\<rparr>
          \<longleftrightarrow> \<not> ToBoolean message) \<and>
         (\<forall>m p. ToBoolean message \<and> ToString message = Inr m \<and>
                previous_ui previousCode = Inr p \<longrightarrow>
            take (Suc 0) (snd (generate J model req_body)) =
              [plannerPrompt_head @ m @ ''"'' @ previous_ui_heading @ p @ [newline]]) \<and>
         ToString (Some (JStr s)) = Inr s \<and>
         ToString (Some (JNum t)) = Inr t \<and>
         (''toString'' \<notin> set (map fst kvs) \<longrightarrow>
            ToString (Some (JObj kvs)) = Inr ''[object Object]'')\<close>
proof (intro conjI allI impI iffI)
  assume \<open>fst (generate J model req_body) =
      \<lparr>status = 400, body = JObj [(''message'', JStr ''Input message required'')]\<rparr>\<close>
  then have \<open>status (fst (generate J model req_body)) = 400\<close>
    by simp
  with passed_guard_not_400 [OF assms] show \<open>\<not> ToBoolean message\<close>
    by blast
next
  assume \<open>\<not> ToBoolean message\<close>
  with assms show \<open>fst (generate J model req_body) =
      \<lparr>status = 400, body = JObj [(''message'', JStr ''Input message required'')]\<rparr>\<close>
    by (simp add: generate_def generate_try_def Input_message_required_def)
next
  fix m p
  assume \<open>ToBoolean message \<and> ToString message = Inr m \<and> previous_ui previousCode = Inr p\<close>
  then show \<open>take (Suc 0) (snd (generate J model req_body)) =
      [plannerPrompt_head @ m @ ''"'' @ previous_ui_heading @ p @ [newline]]\<close>
    by (simp add: first_call [OF assms] plannerPrompt_def)
qed simp_all

theorem guard_tests_truthiness_witness:
  \<open>fst (generate stub_runtime (stub_client []) (Some (JObj [(''message'', JStr ''   '')]))) \<noteq>
     \<lparr>status = 400, body = JObj [(''message'', JStr ''Input message required'')]\<rparr> \<and>
   take (Suc 0) (snd (generate stub_runtime (stub_client [])
       (Some (JObj [(''message'', JStr ''   '')])))) =
     [plannerPrompt_head @ ''   '' @ ''"'' @ previous_ui_heading @ ''None'' @ [newline]] \<and>
   take (Suc 0) (snd (generate stub_runtime (stub_client [])
       (Some (JObj [(''message'', JNum ''42'')])))) =
     [plannerPrompt_head @ ''42'' @ ''"'' @ previous_ui_heading @ ''None'' @ [newline]] \<and>
   take (Suc 0) (snd (generate stub_runtime (stub_client [])
       (Some (JObj [(''message'', JObj [(''text'', JStr ''hi'')])])))) =
     [plannerPrompt_head @ ''[object Object]'' @ ''"'' @ previous_ui_heading @ ''None'' @
      [newline]] \<and>
   fst (generate stub_runtime (stub_client []) (Some (JObj [(''message'', JNum ''0'')]))) =
     \<lparr>status = 400, body = JObj [(''message'', JStr ''Input message required'')]\<rparr>\<close>
proof -
  have d: \<open>destructure (Some (JObj [(''message'', v)])) = Inr (Some v, None)\<close> for v
    by simp
  note blank = guard_tests_truthiness [OF d [of \<open>JStr ''   ''\<close>],
      of stub_runtime \<open>stub_client []\<close>]
  note number = guard_tests_truthiness [OF d [of \<open>JNum ''42''\<close>],
      of stub_runtime \<open>stub_client []\<close>]
  note object = guard_tests_truthiness [OF d [of \<open>JObj [(''text'', JStr ''hi'')]\<close>],
      of stub_runtime \<open>stub_client []\<close>]
  note zero = guard_tests_truthiness [OF d [of \<open>JNum ''0''\<close>],
      of stub_runtime \<open>stub_client []\<close>]
  have p: \<open>previous_ui None = Inr ''None''\<close>
    by (simp add: previous_ui_def)
  have 1: \<open>fst (generate stub_runtime (stub_client [])
      (Some (JObj [(''message'', JStr ''   '')]))) \<noteq>
     \<lparr>status = 400, body = JObj [(''message'', JStr ''Input message required'')]\<rparr>\<close>
    using blank [THEN conjunct1] by simp
  have 2: \<open>take (Suc 0) (snd (generate stub_runtime (stub_client [])
       (Some (JObj [(''message'', JStr ''   '')])))) =
     [plannerPrompt_head @ ''   '' @ ''"'' @ previous_ui_heading @ ''None'' @ [newline]]\<close>
    by (rule blank [THEN conjunct2, THEN conjunct1, rule_format]) (simp add: p)
  have 3: \<open>take (Suc 0) (snd (generate stub_runtime (stub_client [])
       (Some (JObj [(''message'', JNum ''42'')])))) =
     [plannerPrompt_head @ ''42'' @ ''"'' @ previous_ui_heading @ ''None'' @ [newline]]\<close>
    by (rule number [THEN conjunct2, THEN conjunct1, rule_format]) (simp add: p)
  have 4: \<open>take (Suc 0) (snd (generate stub_runtime (stub_client [])
       (Some (JObj [(''message'', JObj [(''text'', JStr ''hi'')])])))) =
     [plannerPrompt_head @ ''[object Object]'' @ ''"'' @ previous_ui_heading @ ''None'' @
      [newline]]\<close>
    by (rule object [THEN conjunct2, THEN conjunct1, rule_format]) (simp add: p)
  have 5: \<open>fst (generate stub_runtime (stub_client [])
      (Some (JObj [(''message'', JNum ''0'')]))) =
     \<lparr>status = 400, body = JObj [(''message'', JStr ''Input message required'')]\<rparr>\<close>
    using zero [THEN conjunct1] by simp
  from 1 2 3 4 5 show ?thesis
    by (intro conjI)
qed

text \<open>
  An object with an own \<^verbatim>\<open>toString\<close> property is truthy and passes the guard, but the
  template cannot convert it: the handler answers 500 and no prompt is sent.
\<close>

theorem guard_tests_truthiness_counterexample:
  \<open>ToBoolean (Some (JObj [(''toString'', JNum ''1'')])) \<and>
   generate stub_runtime (stub_client [Some planner_reply, Some jsx_reply, Some prose_reply])
     (Some (JObj [(''message'', JObj [(''toString'', JNum ''1'')])])) =
     (\<lparr>status = 500, body = JObj [(''message'', JStr ''Internal server error'')]\<rparr>, [])\<close>
  by (simp add: generate_def generate_try_def plannerPrompt_def Internal_server_error_def)

section \<open>The empty string as previous code\<close>

text \<open>
  C10. With the empty string as \<open>previousCode\<close> the planner prompt and the generator
  prompt are the ones rendered for \<^verbatim>\<open>null\<close> (and for an absent \<open>previousCode\<close>): the
  previous-UI section holds the marker \<^verbatim>\<open>None\<close>, because the fallback tests truthiness.
\<close>

theorem empty_previousCode_as_null:
  \<open>plannerPrompt message (Some (JStr [])) = plannerPrompt message (Some JNull) \<and>
   plannerPrompt message (Some (JStr [])) = plannerPrompt message None \<and>
   generatorPrompt J plan (Some (JStr [])) = generatorPrompt J plan (Some JNull) \<and>
   generatorPrompt J plan (Some (JStr [])) = generatorPrompt J plan None \<and>
   plannerPrompt message (Some (JStr [])) =
     map_sum id (\<lambda>m. plannerPrompt_head @ m @ ''"'' @ previous_ui_heading @ ''None'' @ [newline])
       (ToString message) \<and>
   generatorPrompt J plan (Some (JStr [])) =
     Inr (generatorPrompt_head @ JSON_stringify J plan @ previous_ui_heading @ ''None'' @
          [newline])\<close>
  by (simp add: plannerPrompt_def generatorPrompt_def previous_ui_def split: sum.splits)

section \<open>The earlier revision\<close>

text \<open>
  The handler of \<^verbatim>\<open>index.js\<close> answers a request whose three calls succeed with the two
  fields \<open>code\<close> and \<open>explanation\<close>; the planner's text is not parsed, so any text goes
  on to the later stages.
\<close>

lemma index_generate_success:
  assumes \<open>destructure req_body = Inr (message, previousCode)\<close>
    and \<open>ToBoolean message\<close>
    and \<open>index_plannerPrompt message previousCode = Inr pp\<close>
    and \<open>model [] pp = Some planText\<close>
    and \<open>model [pp] (index_generatorPrompt planText) = Some code\<close>
    and \<open>model [pp, index_generatorPrompt planText] (index_explainerPrompt planText) =
           Some explanation\<close>
  shows \<open>index_generate model req_body =
           (\<lparr>status = 200,
             body = JObj [(''code'', JStr code), (''explanation'', JStr explanation)]\<rparr>,
            [pp, index_generatorPrompt planText, index_explainerPrompt planText])\<close>
  using assms by (simp add: index_generate_def index_generate_try_def generateContent_def)

end
